theory Spec2Isabelle
  imports Main
begin

section \<open>Values that travel in envelopes\<close>

text \<open>
  The values \<^verbatim>\<open>json.loads\<close> produces and \<^verbatim>\<open>json.dumps\<close> accepts. A Python float is
  a dyadic rational \<open>m * 2 ^ e\<close> or one of the three special values the decoder accepts
  (\<^verbatim>\<open>Infinity\<close>, \<^verbatim>\<open>-Infinity\<close>, \<^verbatim>\<open>NaN\<close>). A mapping is an association list
  with string keys; a tuple and a list are both an array on the wire, so both are \<open>JList\<close>.
\<close>

datatype pyfloat = Finite int int | PosInf | NegInf | NaN

datatype json =
    JNull
  | JBool bool
  | JInt int
  | JFloat pyfloat
  | JStr string
  | JList "json list"
  | JDict "(string \<times> json) list"

text \<open>Python compares a float with an int exactly.\<close>

fun float_eq_int :: "pyfloat \<Rightarrow> int \<Rightarrow> bool" where
  "float_eq_int (Finite m e) k =
     (if 0 \<le> e then m * 2 ^ nat e = k else m = k * 2 ^ nat (- e))"
| "float_eq_int PosInf k = False"
| "float_eq_int NegInf k = False"
| "float_eq_int NaN k = False"

text \<open>
  \<^verbatim>\<open>value == member\<close> for a member of an \<^verbatim>\<open>IntEnum\<close>: the member is an int, \<^verbatim>\<open>bool\<close>
  is a subclass of int (\<^verbatim>\<open>True == 1\<close>), a float equals the int of the same value, and
  every other decoded value differs from every int.
\<close>

fun py_eq_int :: "json \<Rightarrow> int \<Rightarrow> bool" where
  "py_eq_int (JInt n) k = (n = k)"
| "py_eq_int (JBool b) k = ((if b then 1 else 0) = k)"
| "py_eq_int (JFloat f) k = float_eq_int f k"
| "py_eq_int JNull k = False"
| "py_eq_int (JStr s) k = False"
| "py_eq_int (JList xs) k = False"
| "py_eq_int (JDict kvs) k = False"

text \<open>\<^verbatim>\<open>isinstance(v, int)\<close> holds of ints and of booleans; \<^verbatim>\<open>isinstance(v, str)\<close> of strings.\<close>

fun isinstance_int :: "json \<Rightarrow> bool" where
  "isinstance_int (JInt n) = True"
| "isinstance_int (JBool b) = True"
| "isinstance_int v = False"

fun isinstance_str :: "json \<Rightarrow> bool" where
  "isinstance_str (JStr s) = True"
| "isinstance_str v = False"

section \<open>Message types\<close>

datatype WAMPMsgType =
    HELLO | WELCOME | ABORT | ERROR
  | CALL | CALL_RESULT | INVOCATION
  | SUBSCRIBE | SUBSCRIBED
  | UNSUBSCRIBE | UNSUBSCRIBED
  | PUBLISH | PUBLISHED | EVENT

fun code :: "WAMPMsgType \<Rightarrow> int" where
  "code HELLO = 1"
| "code WELCOME = 2"
| "code ABORT = 3"
| "code ERROR = 8"
| "code CALL = 48"
| "code CALL_RESULT = 50"
| "code INVOCATION = 68"
| "code SUBSCRIBE = 32"
| "code SUBSCRIBED = 33"
| "code UNSUBSCRIBE = 34"
| "code UNSUBSCRIBED = 35"
| "code PUBLISH = 16"
| "code PUBLISHED = 17"
| "code EVENT = 36"

text \<open>A member of the enumeration inside an outgoing tuple is serialized as its integer.\<close>

definition enc :: "WAMPMsgType \<Rightarrow> json" where
  "enc t = JInt (code t)"

definition is_type :: "json \<Rightarrow> WAMPMsgType \<Rightarrow> bool" where
  "is_type v t = py_eq_int v (code t)"

section \<open>Faults and results\<close>

text \<open>
  Every way the source leaves a function other than by returning:
  \<^item> \<open>JSONDecodeError\<close>: \<^verbatim>\<open>json.loads\<close> rejects the text;
  \<^item> \<open>Exception msg\<close>: an explicit \<^verbatim>\<open>raise Exception(msg)\<close>, or an exception of a
    collaborator that nothing catches, with its \<^verbatim>\<open>str\<close>;
  \<^item> \<open>IndexError\<close>: \<^verbatim>\<open>data[i]\<close> past the end of the list;
  \<^item> \<open>TypeError msg\<close>: calling \<^verbatim>\<open>None\<close>, or awaiting a value that is not awaitable.
\<close>

datatype error = JSONDecodeError | Exception string | IndexError | TypeError string

type_synonym 'a result = "error + 'a"

definition index :: "'a list \<Rightarrow> nat \<Rightarrow> 'a result" where
  "index xs i = (if i < length xs then Inr (xs ! i) else Inl IndexError)"

section \<open>The transport\<close>

text \<open>
  The transport is a collaborator outside the repository. The model keeps the calls the
  protocol makes on it, oldest first: \<^verbatim>\<open>schedule_msg(serialize(msg))\<close>, recorded with
  the envelope \<open>msg\<close>, and \<^verbatim>\<open>close()\<close>.
\<close>

datatype transport_call = Schedule_msg json | Close

type_synonym transport = "transport_call list"

definition schedule_msg :: "json \<Rightarrow> transport \<Rightarrow> unit result \<times> transport" where
  "schedule_msg msg tr = (Inr (), tr @ [Schedule_msg msg])"

definition close :: "transport \<Rightarrow> unit result \<times> transport" where
  "close tr = (Inr (), tr @ [Close])"

section \<open>Value objects\<close>

text \<open>
  The frozen dataclasses. A field name carries a prefix where two classes share it or
  where the protocol has a local variable of that name. A request holds what the
  envelope held at that position, whatever its type: only \<^verbatim>\<open>recv_rpc_call\<close> checks
  types before it builds the request.
\<close>

record WAMPSession =
  session_id :: int
  remote :: "string option"

record WAMPRequest =
  session :: WAMPSession
  req_request_id :: json

record WAMPSubscribeRequest = WAMPRequest +
  subscribe_options :: json
  subscribe_uri :: json

record WAMPSubscribeResponse = WAMPRequest +
  subscribed_request :: WAMPSubscribeRequest
  subscribed_subscription :: int

record WAMPSubscribeErrorResponse =
  subscribe_error_request :: WAMPSubscribeRequest
  subscribe_error_uri :: string
  subscribe_error_details :: "(string \<times> json) list"

record WAMPUnsubscribeRequest = WAMPRequest +
  unsubscribe_subscription :: json

record WAMPUnsubscribeErrorResponse =
  unsubscribe_error_request :: WAMPUnsubscribeRequest
  unsubscribe_error_uri :: string
  unsubscribe_error_details :: "(string \<times> json) list"

record WAMPEvent =
  event_publication :: int
  event_details :: "(string \<times> json) list"
  event_args :: "json list"
  event_kwargs :: "(string \<times> json) list"

record WAMPRPCRequest = WAMPRequest +
  rpc_options :: "(string \<times> json) list"
  rpc_uri :: json
  rpc_args :: json
  rpc_kwargs :: json

record WAMPRPCResponse =
  rpc_response_request :: WAMPRPCRequest
  rpc_response_details :: "(string \<times> json) list"
  rpc_response_args :: "json list"
  rpc_response_kwargs :: "(string \<times> json) list"

record WAMPRPCErrorResponse =
  rpc_error_request :: WAMPRPCRequest
  rpc_error_uri :: string
  rpc_error_details :: "(string \<times> json) list"
  rpc_error_args :: "json list"
  rpc_error_kwargs :: "(string \<times> json) list"

section \<open>Handlers\<close>

text \<open>
  A handler is a callable given to the constructor, or \<^verbatim>\<open>None\<close> (the default). Calling
  it returns a value or raises an \<^verbatim>\<open>Exception\<close> \<open>e\<close>; \<open>Raises s\<close> carries \<^verbatim>\<open>str(e)\<close>.
  What the RPC handler returns is either an error response or anything else, which is
  sent back as the result; likewise for the two subscription handlers.
\<close>

datatype 'a outcome = Returns 'a | Raises string

datatype rpc_result = RPCError WAMPRPCErrorResponse | RPCValue json

datatype subscribe_result =
  SubscribeError WAMPSubscribeErrorResponse | SubscribeResponse WAMPSubscribeResponse

datatype unsubscribe_result =
  UnsubscribeError WAMPUnsubscribeErrorResponse | UnsubscribeValue json

type_synonym ('a, 'b) handler = "('a \<Rightarrow> 'b outcome) option"

text \<open>Calling \<^verbatim>\<open>None\<close> raises a \<^verbatim>\<open>TypeError\<close>, which is an \<^verbatim>\<open>Exception\<close>.\<close>

definition none_not_callable :: string where
  "none_not_callable = CHR 0x27 # ''NoneType'' @ CHR 0x27 # '' object is not callable''"

definition call :: "('a, 'b) handler \<Rightarrow> 'a \<Rightarrow> 'b outcome" where
  "call h x = (case h of None \<Rightarrow> Raises none_not_callable | Some f \<Rightarrow> f x)"

record WAMPProtocol =
  protocol_session :: WAMPSession
  open_handler :: "(WAMPSession, unit) handler"
  subscribe_handler :: "(WAMPSubscribeRequest, subscribe_result) handler"
  unsubscribe_handler :: "(WAMPUnsubscribeRequest, unsubscribe_result) handler"
  rpc_handler :: "(WAMPRPCRequest, rpc_result) handler"
  agent_name :: string

text \<open>
  The constructor. The session identifier is drawn at random by \<^verbatim>\<open>generate_global_id\<close>
  and the remote address is formatted by a helper outside this module, so both are
  arguments here; an agent name that is \<^verbatim>\<open>None\<close> or empty gives the default one.
  The protocol object is not assigned to after construction.
\<close>

definition init ::
  "int \<Rightarrow> string option \<Rightarrow> (WAMPSession, unit) handler \<Rightarrow> (WAMPRPCRequest, rpc_result) handler
     \<Rightarrow> (WAMPSubscribeRequest, subscribe_result) handler
     \<Rightarrow> (WAMPUnsubscribeRequest, unsubscribe_result) handler \<Rightarrow> string option
     \<Rightarrow> WAMPProtocol" where
  "init global_id sockaddr open_h rpc_h subscribe_h unsubscribe_h agent =
     \<lparr>protocol_session = \<lparr>session_id = global_id, remote = sockaddr\<rparr>,
      open_handler = open_h,
      subscribe_handler = subscribe_h,
      unsubscribe_handler = unsubscribe_h,
      rpc_handler = rpc_h,
      agent_name = (case agent of
                      None \<Rightarrow> ''aiohttp-server-wamp''
                    | Some a \<Rightarrow> if a \<noteq> [] then a else ''aiohttp-server-wamp'')\<rparr>"

section \<open>The protocol\<close>

text \<open>
  \<^verbatim>\<open>deserialize\<close> is \<^verbatim>\<open>json.loads\<close> of the standard library, a parameter of the model:
  \<open>deserialize text\<close> is \<open>None\<close> where \<^verbatim>\<open>json.loads\<close> raises. \<^verbatim>\<open>serialize\<close> is
  \<^verbatim>\<open>json.dumps\<close>, a total function of the values above, so the call
  \<^verbatim>\<open>schedule_msg(serialize(msg))\<close> is recorded by the envelope \<open>msg\<close> it sends. Every
  operation takes the transport's calls so far and returns them extended, with \<open>Inr ()\<close>
  when it returns and \<open>Inl e\<close> when it raises \<open>e\<close>.
\<close>

definition do_unimplemented ::
  "json \<Rightarrow> json \<Rightarrow> transport \<Rightarrow> unit result \<times> transport" where
  "do_unimplemented msg_type request_id tr =
     (let error_msg = JList [enc ERROR, request_id, JDict [], JStr ''wamp.error.not_implemented'']
      in schedule_msg error_msg tr)"

definition do_protocol_violation ::
  "string option \<Rightarrow> transport \<Rightarrow> unit result \<times> transport" where
  "do_protocol_violation msg tr =
     (let details = (case msg of
                       None \<Rightarrow> JDict []
                     | Some m \<Rightarrow> if m \<noteq> [] then JDict [(''message'', JStr m)] else JDict []);
          error_msg = JList [enc ABORT, details, JStr ''wamp.error.protocol_violation'']
      in case schedule_msg error_msg tr of
           (Inl e, tr') \<Rightarrow> (Inl e, tr')
         | (Inr u, tr') \<Rightarrow> close tr')"

definition do_welcome ::
  "WAMPProtocol \<Rightarrow> transport \<Rightarrow> unit result \<times> transport" where
  "do_welcome self tr =
     (let welcome = JList
            [enc WELCOME,
             JInt (session_id (protocol_session self)),
             JDict [(''roles'', JDict [(''broker'', JDict []), (''dealer'', JDict [])]),
                    (''agent'', JStr (agent_name self))]]
      in schedule_msg welcome tr)"

definition do_unauthorized ::
  "json list \<Rightarrow> transport \<Rightarrow> unit result \<times> transport" where
  "do_unauthorized data tr =
     (case index data 0 of
        Inl e \<Rightarrow> (Inl e, tr)
      | Inr msg_type \<Rightarrow>
     (case index data 1 of
        Inl e \<Rightarrow> (Inl e, tr)
      | Inr request_id \<Rightarrow>
          schedule_msg
            (JList [msg_type, request_id, JDict [], JStr ''wamp.error.not_authorized''])
            tr))"

definition publish_event ::
  "json \<Rightarrow> WAMPEvent \<Rightarrow> transport \<Rightarrow> unit result \<times> transport" where
  "publish_event subscription event tr =
     (let msg = [enc EVENT, subscription, JInt (event_publication event), JDict []];
          msg' = (if event_kwargs event \<noteq> [] then msg @ [JList (event_args event)] @ [JDict (event_kwargs event)]
                  else if event_args event \<noteq> [] then msg @ [JList (event_args event)]
                  else msg)
      in schedule_msg (JList msg') tr)"

definition recv_rpc_call ::
  "WAMPProtocol \<Rightarrow> json list \<Rightarrow> transport \<Rightarrow> unit result \<times> transport" where
  "recv_rpc_call self data tr =
     (case index data 1 of
        Inl e \<Rightarrow> (Inl e, tr)
      | Inr request_id \<Rightarrow>
     (case index data 2 of
        Inl e \<Rightarrow> (Inl e, tr)
      | Inr uri \<Rightarrow>
          let args = (if length data > 3 then data ! 3 else JList []);
              kwargs = (if length data > 4 then data ! 4 else JDict [])
          in if \<not> isinstance_int request_id \<or> \<not> isinstance_str uri
             then (Inl (Exception []), tr)
             else
               let request = \<lparr>session = protocol_session self, req_request_id = request_id,
                                rpc_options = [], rpc_uri = uri,
                                rpc_args = args, rpc_kwargs = kwargs\<rparr>;
                   result_msg =
                     (case call (rpc_handler self) request of
                        Returns (RPCError result) \<Rightarrow>
                          JList [enc ERROR, enc CALL, request_id, JDict [],
                                 JStr (rpc_error_uri result),
                                 JList (rpc_error_args result),
                                 JDict (rpc_error_kwargs result)]
                      | Returns (RPCValue result) \<Rightarrow>
                          JList [enc CALL_RESULT, request_id, result]
                      | Raises e \<Rightarrow>
                          JList [enc ERROR, enc CALL, request_id, JDict [],
                                 JStr ''wamp.error.exception_during_rpc_call'', JStr e])
               in schedule_msg result_msg tr))"

definition recv_subscribe ::
  "WAMPProtocol \<Rightarrow> json list \<Rightarrow> transport \<Rightarrow> unit result \<times> transport" where
  "recv_subscribe self data tr =
     (case index data 1 of
        Inl e \<Rightarrow> (Inl e, tr)
      | Inr request_id \<Rightarrow>
     (case index data 2 of
        Inl e \<Rightarrow> (Inl e, tr)
      | Inr options \<Rightarrow>
     (case index data 3 of
        Inl e \<Rightarrow> (Inl e, tr)
      | Inr uri \<Rightarrow>
          let request = \<lparr>session = protocol_session self, req_request_id = request_id,
                           subscribe_options = options, subscribe_uri = uri\<rparr>;
              result_msg =
                (case call (subscribe_handler self) request of
                   Returns (SubscribeError result) \<Rightarrow>
                     JList [enc ERROR, enc SUBSCRIBE, request_id,
                            JDict (subscribe_error_details result),
                            JStr (subscribe_error_uri result)]
                 | Returns (SubscribeResponse result) \<Rightarrow>
                     JList [enc SUBSCRIBED, request_id, JInt (subscribed_subscription result)]
                 | Raises e \<Rightarrow>
                     JList [enc ERROR, enc SUBSCRIBE, request_id, JDict [],
                            JStr ''wamp.error.exception_during_rpc_call'', JStr e])
          in schedule_msg result_msg tr)))"

definition recv_unsubscribe ::
  "WAMPProtocol \<Rightarrow> json list \<Rightarrow> transport \<Rightarrow> unit result \<times> transport" where
  "recv_unsubscribe self data tr =
     (case index data 1 of
        Inl e \<Rightarrow> (Inl e, tr)
      | Inr request_id \<Rightarrow>
     (case index data 2 of
        Inl e \<Rightarrow> (Inl e, tr)
      | Inr subscription \<Rightarrow>
          let request = \<lparr>session = protocol_session self, req_request_id = request_id,
                           unsubscribe_subscription = subscription\<rparr>;
              result_msg =
                (case call (unsubscribe_handler self) request of
                   Returns (UnsubscribeError result) \<Rightarrow>
                     JList [enc ERROR, enc UNSUBSCRIBE, request_id,
                            JDict (unsubscribe_error_details result),
                            JStr (unsubscribe_error_uri result)]
                 | Returns (UnsubscribeValue result) \<Rightarrow>
                     JList [enc UNSUBSCRIBED, request_id]
                 | Raises e \<Rightarrow>
                     JList [enc ERROR, enc SUBSCRIBE, request_id, JDict [],
                            JStr ''wamp.error.exception_during_rpc_call'', JStr e])
          in schedule_msg result_msg tr))"

text \<open>
  \<^verbatim>\<open>await f(...)\<close> where \<^verbatim>\<open>f\<close> is a plain function that returns \<^verbatim>\<open>None\<close>: the call runs
  to its end, then awaiting its value raises a \<^verbatim>\<open>TypeError\<close>.
\<close>

definition none_not_awaitable :: string where
  "none_not_awaitable = ''object NoneType can'' @ CHR 0x27 # ''t be used in '' @
     CHR 0x27 # ''await'' @ CHR 0x27 # '' expression''"

definition await_none :: "unit result \<times> transport \<Rightarrow> unit result \<times> transport" where
  "await_none r =
     (case r of
        (Inl e, tr) \<Rightarrow> (Inl e, tr)
      | (Inr u, tr) \<Rightarrow> (Inl (TypeError none_not_awaitable), tr))"

definition handle_msg ::
  "(string \<Rightarrow> json option) \<Rightarrow> WAMPProtocol \<Rightarrow> string \<Rightarrow> transport
     \<Rightarrow> unit result \<times> transport" where
  "handle_msg deserialize self message tr =
     (case deserialize message of
        None \<Rightarrow> (Inl JSONDecodeError, tr)
      | Some (JList data) \<Rightarrow>
          (case index data 0 of
             Inl e \<Rightarrow> (Inl e, tr)
           | Inr msg_type \<Rightarrow>
               if is_type msg_type HELLO then
                 (case do_welcome self tr of
                    (Inl e, tr') \<Rightarrow> (Inl e, tr')
                  | (Inr u, tr') \<Rightarrow>
                      (case open_handler self of
                         None \<Rightarrow> (Inl (TypeError none_not_callable), tr')
                       | Some f \<Rightarrow>
                           (case f (protocol_session self) of
                              Raises e \<Rightarrow> (Inl (Exception e), tr')
                            | Returns v \<Rightarrow> (Inr (), tr'))))
               else if is_type msg_type CALL then recv_rpc_call self data tr
               else if is_type msg_type SUBSCRIBE then recv_subscribe self data tr
               else if is_type msg_type UNSUBSCRIBE then recv_unsubscribe self data tr
               else if is_type msg_type EVENT \<or> is_type msg_type INVOCATION
                 then await_none (do_unauthorized data tr)
               else if is_type msg_type PUBLISH \<or> is_type msg_type PUBLISHED then
                 (case index data 1 of
                    Inl e \<Rightarrow> (Inl e, tr)
                  | Inr request_id \<Rightarrow> do_unimplemented msg_type request_id tr)
               else do_protocol_violation (Some ''Unknown WAMP message type.'') tr)
      | Some other \<Rightarrow> (Inl (Exception ''incoming data is no list''), tr))"

section \<open>A sample protocol\<close>

text \<open>
  A protocol object and a few incoming texts, for evaluating the operations. The table
  \<open>sample_deserialize\<close> is \<^verbatim>\<open>json.loads\<close> on the texts it lists; every other text is
  taken as one the decoder rejects.
\<close>

definition quoted :: "string \<Rightarrow> string" where
  "quoted s = CHR 0x22 # s @ [CHR 0x22]"

definition add_call_text :: string where
  "add_call_text = ''[48, 7, '' @ quoted ''math.add'' @ '', [2, 3]]''"

definition sqrt_call_text :: string where
  "sqrt_call_text = ''[48, 8, '' @ quoted ''math.sqrt'' @ '']''"

definition bad_call_text :: string where
  "bad_call_text = ''[48, '' @ quoted ''7'' @ '', '' @ quoted ''math.add'' @ '', [2, 3]]''"

definition subscribe_text :: string where
  "subscribe_text = ''[32, 3, {}, '' @ quoted ''topic.x'' @ '']''"

definition sample_deserialize :: "string \<Rightarrow> json option" where
  "sample_deserialize text =
     (if text = add_call_text
        then Some (JList [JInt 48, JInt 7, JStr ''math.add'', JList [JInt 2, JInt 3]])
      else if text = sqrt_call_text
        then Some (JList [JInt 48, JInt 8, JStr ''math.sqrt''])
      else if text = bad_call_text
        then Some (JList [JInt 48, JStr ''7'', JStr ''math.add'', JList [JInt 2, JInt 3]])
      else if text = subscribe_text
        then Some (JList [JInt 32, JInt 3, JDict [], JStr ''topic.x''])
      else if text = ''[34, 9, 42]'' then Some (JList [JInt 34, JInt 9, JInt 42])
      else if text = ''[34, 9, 43]'' then Some (JList [JInt 34, JInt 9, JInt 43])
      else if text = ''[36, 5]'' then Some (JList [JInt 36, JInt 5])
      else if text = ''[36]'' then Some (JList [JInt 36])
      else if text = ''[16]'' then Some (JList [JInt 16])
      else if text = ''[99, 1]'' then Some (JList [JInt 99, JInt 1])
      else if text = ''[]'' then Some (JList [])
      else if text = ''{}'' then Some (JDict [])
      else None)"

definition sample_rpc :: "WAMPRPCRequest \<Rightarrow> rpc_result outcome" where
  "sample_rpc request =
     (if rpc_uri request = JStr ''math.add'' then
        (case rpc_args request of
           JList [JInt a, JInt b] \<Rightarrow> Returns (RPCValue (JInt (a + b)))
         | _ \<Rightarrow> Raises ''bad arguments'')
      else Raises ''no such procedure'')"

definition sample_subscribe :: "WAMPSubscribeRequest \<Rightarrow> subscribe_result outcome" where
  "sample_subscribe request =
     (if subscribe_uri request = JStr ''topic.x'' then
        Returns (SubscribeResponse
          \<lparr>session = session request, req_request_id = req_request_id request,
           subscribed_request = request, subscribed_subscription = 42\<rparr>)
      else Raises ''no such topic'')"

definition sample_unsubscribe :: "WAMPUnsubscribeRequest \<Rightarrow> unsubscribe_result outcome" where
  "sample_unsubscribe request =
     (if unsubscribe_subscription request = JInt 42 then
        Returns (UnsubscribeError
          \<lparr>unsubscribe_error_request = request,
           unsubscribe_error_uri = ''wamp.error.no_such_subscription'',
           unsubscribe_error_details = []\<rparr>)
      else Raises ''registry unavailable'')"

definition sample_protocol :: WAMPProtocol where
  "sample_protocol =
     init 1001 None None (Some sample_rpc) (Some sample_subscribe) (Some sample_unsubscribe)
       None"

definition sample_event :: WAMPEvent where
  "sample_event =
     \<lparr>event_publication = 77,
      event_details = [(''topic'', JStr ''topic.x'')],
      event_args = [JInt 1],
      event_kwargs = []\<rparr>"

section \<open>Evaluation and dispatch\<close>

lemmas sample_defs = sample_deserialize_def quoted_def add_call_text_def sqrt_call_text_def
  bad_call_text_def subscribe_text_def sample_rpc_def sample_subscribe_def
  sample_unsubscribe_def sample_protocol_def init_def sample_event_def

lemmas operation_defs = handle_msg_def recv_rpc_call_def recv_subscribe_def
  recv_unsubscribe_def do_unauthorized_def do_unimplemented_def do_protocol_violation_def
  do_welcome_def await_none_def schedule_msg_def close_def index_def is_type_def enc_def
  call_def

lemma float_eq_int_unique: "float_eq_int f a \<Longrightarrow> float_eq_int f b \<Longrightarrow> a = b"
  by (cases f) (auto split: if_splits)

lemma py_eq_int_unique: "py_eq_int v a \<Longrightarrow> py_eq_int v b \<Longrightarrow> a = b"
  by (cases v) (auto dest: float_eq_int_unique)

text \<open>No value equals two members of the enumeration: the branches of the dispatch
  exclude one another.\<close>

lemma is_type_unique: "is_type v s \<Longrightarrow> is_type v t \<Longrightarrow> s = t"
  unfolding is_type_def
  by (drule (1) py_eq_int_unique, cases s; cases t; simp)

lemma handle_msg_call:
  assumes "deserialize message = Some (JList data)"
    and "index data 0 = Inr msg_type"
    and "is_type msg_type CALL"
  shows "handle_msg deserialize self message tr = recv_rpc_call self data tr"
proof -
  have "\<not> is_type msg_type HELLO"
    using assms(3) by (auto dest: is_type_unique)
  then show ?thesis
    using assms by (simp add: handle_msg_def)
qed

lemma recv_rpc_call_checked:
  assumes "index data 1 = Inr request_id"
    and "index data 2 = Inr uri"
    and "isinstance_int request_id" and "isinstance_str uri"
    and "request = \<lparr>session = protocol_session self, req_request_id = request_id,
                      rpc_options = [], rpc_uri = uri,
                      rpc_args = (if length data > 3 then data ! 3 else JList []),
                      rpc_kwargs = (if length data > 4 then data ! 4 else JDict [])\<rparr>"
  shows "recv_rpc_call self data tr =
           schedule_msg
             (case call (rpc_handler self) request of
                Returns (RPCError result) \<Rightarrow>
                  JList [enc ERROR, enc CALL, request_id, JDict [],
                         JStr (rpc_error_uri result),
                         JList (rpc_error_args result),
                         JDict (rpc_error_kwargs result)]
              | Returns (RPCValue result) \<Rightarrow>
                  JList [enc CALL_RESULT, request_id, result]
              | Raises e \<Rightarrow>
                  JList [enc ERROR, enc CALL, request_id, JDict [],
                         JStr ''wamp.error.exception_during_rpc_call'', JStr e])
             tr"
  unfolding recv_rpc_call_def assms(1,2,5) using assms(3,4)
  by (simp add: Let_def)

section \<open>Malformed text\<close>

text \<open>
  C1, as the code has it: when the text is not parseable, or the decoded value is not a
  list, \<open>handle_msg\<close> raises (the decoder's error, or the exception
  \<^verbatim>\<open>incoming data is no list\<close>) and makes no call on the transport: it sends no ABORT
  and does not request close.
\<close>

theorem handle_msg_malformed_raises:
  "(deserialize message = None \<longrightarrow>
      handle_msg deserialize self message tr = (Inl JSONDecodeError, tr)) \<and>
   ((\<exists>v. deserialize message = Some v \<and> (\<forall>data. v \<noteq> JList data)) \<longrightarrow>
      handle_msg deserialize self message tr =
        (Inl (Exception ''incoming data is no list''), tr))"
  by (auto simp: handle_msg_def split: json.splits)

text \<open>The theorem at a text the decoder rejects and at the text of an object.\<close>

theorem handle_msg_malformed_raises_witness:
  "sample_deserialize ''nonsense'' = None \<and>
   handle_msg sample_deserialize sample_protocol ''nonsense'' [Close] =
     (Inl JSONDecodeError, [Close]) \<and>
   sample_deserialize ''{}'' = Some (JDict []) \<and>
   handle_msg sample_deserialize sample_protocol ''{}'' [Close] =
     (Inl (Exception ''incoming data is no list''), [Close])"
  using handle_msg_malformed_raises [of sample_deserialize "''nonsense''" sample_protocol "[Close]"]
    handle_msg_malformed_raises [of sample_deserialize "''{}''" sample_protocol "[Close]"]
  by (simp add: sample_defs)

text \<open>
  C1 as stated fails: on a transport with no call so far, neither text makes
  \<open>handle_msg\<close> send an ABORT or request close; the transport stays without a call.
\<close>

theorem handle_msg_malformed_sends_no_abort:
  "handle_msg sample_deserialize sample_protocol ''nonsense'' [] = (Inl JSONDecodeError, []) \<and>
   handle_msg sample_deserialize sample_protocol ''{}'' [] =
     (Inl (Exception ''incoming data is no list''), [])"
  by (simp add: handle_msg_def sample_defs)

section \<open>No session state\<close>

text \<open>
  What a request workflow adds to the transport: nothing when it raises, else one
  envelope whose first field is the code of a reply (CALL_RESULT, SUBSCRIBED,
  UNSUBSCRIBED or ERROR). It never sends an ABORT and never requests close.
\<close>

lemma recv_rpc_call_adds:
  "\<exists>out. snd (recv_rpc_call self data tr) = tr @ out \<and> length out \<le> 1 \<and> Close \<notin> set out \<and>
     (\<forall>env. Schedule_msg env \<in> set out \<longrightarrow>
        (\<exists>t rest. env = JList (enc t # rest) \<and> t \<in> {CALL_RESULT, SUBSCRIBED, UNSUBSCRIBED, ERROR}))"
  by (auto simp: recv_rpc_call_def schedule_msg_def Let_def
      split: sum.splits outcome.splits rpc_result.splits)

lemma recv_subscribe_adds:
  "\<exists>out. snd (recv_subscribe self data tr) = tr @ out \<and> length out \<le> 1 \<and> Close \<notin> set out \<and>
     (\<forall>env. Schedule_msg env \<in> set out \<longrightarrow>
        (\<exists>t rest. env = JList (enc t # rest) \<and> t \<in> {CALL_RESULT, SUBSCRIBED, UNSUBSCRIBED, ERROR}))"
  by (auto simp: recv_subscribe_def schedule_msg_def Let_def
      split: sum.splits outcome.splits subscribe_result.splits)

lemma recv_unsubscribe_adds:
  "\<exists>out. snd (recv_unsubscribe self data tr) = tr @ out \<and> length out \<le> 1 \<and> Close \<notin> set out \<and>
     (\<forall>env. Schedule_msg env \<in> set out \<longrightarrow>
        (\<exists>t rest. env = JList (enc t # rest) \<and> t \<in> {CALL_RESULT, SUBSCRIBED, UNSUBSCRIBED, ERROR}))"
  by (auto simp: recv_unsubscribe_def schedule_msg_def Let_def
      split: sum.splits outcome.splits unsubscribe_result.splits)

text \<open>The outcome of \<open>handle_msg\<close> and the calls it adds do not depend on the calls made
  on the transport before, the only thing that changes between two messages.\<close>

lemma handle_msg_history:
  "handle_msg deserialize self message tr =
     (fst (handle_msg deserialize self message []),
      tr @ snd (handle_msg deserialize self message []))"
  by (auto simp: operation_defs Let_def
      split: option.splits json.splits sum.splits outcome.splits list.splits)

text \<open>
  C2, as the code has it: \<open>handle_msg\<close> keeps no record of a HELLO. Whatever was received
  or sent before, and so also when no HELLO was received and nothing was sent, an
  envelope whose first element is CALL, SUBSCRIBE or UNSUBSCRIBE is handed to its
  request workflow (\<open>recv_rpc_call\<close>, \<open>recv_subscribe\<close>, \<open>recv_unsubscribe\<close>), and
  \<open>handle_msg\<close> does exactly what that workflow does: it adds at most one envelope to the
  transport, a reply and never an ABORT, and it does not request close. The outcome and
  the calls added are those on a transport without any call so far.
\<close>

theorem requests_need_no_hello:
  assumes "deserialize message = Some (JList data)"
    and "index data 0 = Inr msg_type"
    and "is_type msg_type CALL \<or> is_type msg_type SUBSCRIBE \<or> is_type msg_type UNSUBSCRIBE"
  shows "(is_type msg_type CALL \<longrightarrow>
            handle_msg deserialize self message tr = recv_rpc_call self data tr) \<and>
         (is_type msg_type SUBSCRIBE \<longrightarrow>
            handle_msg deserialize self message tr = recv_subscribe self data tr) \<and>
         (is_type msg_type UNSUBSCRIBE \<longrightarrow>
            handle_msg deserialize self message tr = recv_unsubscribe self data tr) \<and>
         (\<exists>out. snd (handle_msg deserialize self message tr) = tr @ out \<and>
            length out \<le> 1 \<and> Close \<notin> set out \<and>
            (\<forall>env. Schedule_msg env \<in> set out \<longrightarrow>
               (\<exists>t rest. env = JList (enc t # rest) \<and>
                  t \<in> {CALL_RESULT, SUBSCRIBED, UNSUBSCRIBED, ERROR}))) \<and>
         handle_msg deserialize self message tr =
           (fst (handle_msg deserialize self message []),
            tr @ snd (handle_msg deserialize self message []))"
proof -
  have c: "handle_msg deserialize self message tr = recv_rpc_call self data tr"
    if "is_type msg_type CALL"
    using assms(1,2) that by (rule handle_msg_call)
  have s: "handle_msg deserialize self message tr = recv_subscribe self data tr"
    if "is_type msg_type SUBSCRIBE"
  proof -
    have "\<not> is_type msg_type HELLO" "\<not> is_type msg_type CALL"
      using that by (auto dest: is_type_unique)
    then show ?thesis
      using assms(1,2) that by (simp add: handle_msg_def)
  qed
  have u: "handle_msg deserialize self message tr = recv_unsubscribe self data tr"
    if "is_type msg_type UNSUBSCRIBE"
  proof -
    have "\<not> is_type msg_type HELLO" "\<not> is_type msg_type CALL" "\<not> is_type msg_type SUBSCRIBE"
      using that by (auto dest: is_type_unique)
    then show ?thesis
      using assms(1,2) that by (simp add: handle_msg_def)
  qed
  have a: "\<exists>out. snd (handle_msg deserialize self message tr) = tr @ out \<and>
            length out \<le> 1 \<and> Close \<notin> set out \<and>
            (\<forall>env. Schedule_msg env \<in> set out \<longrightarrow>
               (\<exists>t rest. env = JList (enc t # rest) \<and>
                  t \<in> {CALL_RESULT, SUBSCRIBED, UNSUBSCRIBED, ERROR}))"
    using assms(3)
  proof (elim disjE)
    assume "is_type msg_type CALL"
    then show ?thesis
      using recv_rpc_call_adds [of self data tr] by (simp only: c)
  next
    assume "is_type msg_type SUBSCRIBE"
    then show ?thesis
      using recv_subscribe_adds [of self data tr] by (simp only: s)
  next
    assume "is_type msg_type UNSUBSCRIBE"
    then show ?thesis
      using recv_unsubscribe_adds [of self data tr] by (simp only: u)
  qed
  show ?thesis
    using c s u a handle_msg_history [of deserialize self message tr] by blast
qed

text \<open>
  The theorem at a CALL, a SUBSCRIBE and an UNSUBSCRIBE, each the first message on a
  transport without any call so far, and at the same CALL after a WELCOME was sent.
\<close>

theorem requests_need_no_hello_witness:
  "sample_deserialize add_call_text =
     Some (JList [JInt 48, JInt 7, JStr ''math.add'', JList [JInt 2, JInt 3]]) \<and>
   is_type (JInt 48) CALL \<and>
   handle_msg sample_deserialize sample_protocol add_call_text [] =
     recv_rpc_call sample_protocol
       [JInt 48, JInt 7, JStr ''math.add'', JList [JInt 2, JInt 3]] [] \<and>
   handle_msg sample_deserialize sample_protocol add_call_text [] =
     (Inr (), [Schedule_msg (JList [JInt 50, JInt 7, JInt 5])]) \<and>
   handle_msg sample_deserialize sample_protocol add_call_text
     [Schedule_msg (JList [JInt 2, JInt 1001, JDict []])] =
     (Inr (), [Schedule_msg (JList [JInt 2, JInt 1001, JDict []]),
               Schedule_msg (JList [JInt 50, JInt 7, JInt 5])]) \<and>
   sample_deserialize subscribe_text =
     Some (JList [JInt 32, JInt 3, JDict [], JStr ''topic.x'']) \<and>
   is_type (JInt 32) SUBSCRIBE \<and>
   handle_msg sample_deserialize sample_protocol subscribe_text [] =
     recv_subscribe sample_protocol [JInt 32, JInt 3, JDict [], JStr ''topic.x''] [] \<and>
   recv_subscribe sample_protocol [JInt 32, JInt 3, JDict [], JStr ''topic.x''] [] =
     (Inr (), [Schedule_msg (JList [JInt 33, JInt 3, JInt 42])]) \<and>
   sample_deserialize ''[34, 9, 42]'' = Some (JList [JInt 34, JInt 9, JInt 42]) \<and>
   is_type (JInt 34) UNSUBSCRIBE \<and>
   handle_msg sample_deserialize sample_protocol ''[34, 9, 42]'' [] =
     recv_unsubscribe sample_protocol [JInt 34, JInt 9, JInt 42] [] \<and>
   recv_unsubscribe sample_protocol [JInt 34, JInt 9, JInt 42] [] =
     (Inr (), [Schedule_msg (JList [JInt 8, JInt 34, JInt 9, JDict [],
        JStr ''wamp.error.no_such_subscription''])])"
proof -
  have r: "recv_rpc_call sample_protocol
       [JInt 48, JInt 7, JStr ''math.add'', JList [JInt 2, JInt 3]] [] =
     (Inr (), [Schedule_msg (JList [JInt 50, JInt 7, JInt 5])])"
    "recv_subscribe sample_protocol [JInt 32, JInt 3, JDict [], JStr ''topic.x''] [] =
     (Inr (), [Schedule_msg (JList [JInt 33, JInt 3, JInt 42])])"
    "recv_unsubscribe sample_protocol [JInt 34, JInt 9, JInt 42] [] =
     (Inr (), [Schedule_msg (JList [JInt 8, JInt 34, JInt 9, JDict [],
        JStr ''wamp.error.no_such_subscription''])])"
    by (simp_all add: recv_rpc_call_def recv_subscribe_def recv_unsubscribe_def
        schedule_msg_def index_def enc_def call_def sample_defs)
  have d: "sample_deserialize add_call_text =
      Some (JList [JInt 48, JInt 7, JStr ''math.add'', JList [JInt 2, JInt 3]])"
    "sample_deserialize subscribe_text =
      Some (JList [JInt 32, JInt 3, JDict [], JStr ''topic.x''])"
    "sample_deserialize ''[34, 9, 42]'' = Some (JList [JInt 34, JInt 9, JInt 42])"
    by (simp_all add: sample_defs)
  have t: "is_type (JInt 48) CALL" "is_type (JInt 32) SUBSCRIBE" "is_type (JInt 34) UNSUBSCRIBE"
    by (simp_all add: is_type_def)
  have i: "index [JInt 48, JInt 7, JStr ''math.add'', JList [JInt 2, JInt 3]] 0 = Inr (JInt 48)"
    "index [JInt 32, JInt 3, JDict [], JStr ''topic.x''] 0 = Inr (JInt 32)"
    "index [JInt 34, JInt 9, JInt 42] 0 = Inr (JInt 34)"
    by (simp_all add: index_def)
  have k: "is_type (JInt 48) CALL \<or> is_type (JInt 48) SUBSCRIBE \<or> is_type (JInt 48) UNSUBSCRIBE"
    "is_type (JInt 32) CALL \<or> is_type (JInt 32) SUBSCRIBE \<or> is_type (JInt 32) UNSUBSCRIBE"
    "is_type (JInt 34) CALL \<or> is_type (JInt 34) SUBSCRIBE \<or> is_type (JInt 34) UNSUBSCRIBE"
    by (simp_all add: is_type_def)
  note call_first = requests_need_no_hello
    [where deserialize = sample_deserialize and message = add_call_text
      and self = sample_protocol and tr = "[]", OF d(1) i(1) k(1)]
  note call_later = requests_need_no_hello
    [where deserialize = sample_deserialize and message = add_call_text
      and self = sample_protocol
      and tr = "[Schedule_msg (JList [JInt 2, JInt 1001, JDict []])]", OF d(1) i(1) k(1)]
  note subscribe_first = requests_need_no_hello
    [where deserialize = sample_deserialize and message = subscribe_text
      and self = sample_protocol and tr = "[]", OF d(2) i(2) k(2)]
  note unsubscribe_first = requests_need_no_hello
    [where deserialize = sample_deserialize and message = "''[34, 9, 42]''"
      and self = sample_protocol and tr = "[]", OF d(3) i(3) k(3)]
  have c: "handle_msg sample_deserialize sample_protocol add_call_text [] =
     recv_rpc_call sample_protocol
       [JInt 48, JInt 7, JStr ''math.add'', JList [JInt 2, JInt 3]] []"
    using call_first t(1) by blast
  have s: "handle_msg sample_deserialize sample_protocol subscribe_text [] =
     recv_subscribe sample_protocol [JInt 32, JInt 3, JDict [], JStr ''topic.x''] []"
    using subscribe_first t(2) by blast
  have u: "handle_msg sample_deserialize sample_protocol ''[34, 9, 42]'' [] =
     recv_unsubscribe sample_protocol [JInt 34, JInt 9, JInt 42] []"
    using unsubscribe_first t(3) by blast
  have "handle_msg sample_deserialize sample_protocol add_call_text
      [Schedule_msg (JList [JInt 2, JInt 1001, JDict []])] =
     (fst (handle_msg sample_deserialize sample_protocol add_call_text []),
      [Schedule_msg (JList [JInt 2, JInt 1001, JDict []])] @
      snd (handle_msg sample_deserialize sample_protocol add_call_text []))"
    using call_later by blast
  then have l: "handle_msg sample_deserialize sample_protocol add_call_text
      [Schedule_msg (JList [JInt 2, JInt 1001, JDict []])] =
     (Inr (), [Schedule_msg (JList [JInt 2, JInt 1001, JDict []]),
               Schedule_msg (JList [JInt 50, JInt 7, JInt 5])])"
    by (simp add: c r(1))
  show ?thesis
    using c s u l by (simp add: r d t)
qed

text \<open>
  C2 as stated fails: a CALL that is the first message of a session, with no call on the
  transport so far, is answered with its result; no ABORT is sent and close is not
  requested.
\<close>

theorem call_before_hello_is_answered:
  "handle_msg sample_deserialize sample_protocol add_call_text [] =
     (Inr (), [Schedule_msg (JList [JInt 50, JInt 7, JInt 5])])"
  by (simp add: operation_defs sample_defs)

section \<open>UNSUBSCRIBE errors\<close>

text \<open>
  C3, as the code has it: the error reply to an UNSUBSCRIBE carries the code of
  UNSUBSCRIBE (34) as its second field when the handler returns a typed error value, and
  the code of SUBSCRIBE (32) when the handler raises an exception.
\<close>

theorem unsubscribe_error_type_codes:
  assumes "deserialize message = Some (JList (msg_type # request_id # subscription # rest))"
    and "is_type msg_type UNSUBSCRIBE"
    and "request = \<lparr>session = protocol_session self, req_request_id = request_id,
                      unsubscribe_subscription = subscription\<rparr>"
  shows "(call (unsubscribe_handler self) request = Returns (UnsubscribeError result) \<longrightarrow>
            handle_msg deserialize self message tr =
              (Inr (), tr @ [Schedule_msg (JList [JInt 8, JInt 34, request_id,
                 JDict (unsubscribe_error_details result),
                 JStr (unsubscribe_error_uri result)])])) \<and>
         (call (unsubscribe_handler self) request = Raises e \<longrightarrow>
            handle_msg deserialize self message tr =
              (Inr (), tr @ [Schedule_msg (JList [JInt 8, JInt 32, request_id, JDict [],
                 JStr ''wamp.error.exception_during_rpc_call'', JStr e])]))"
proof -
  have "\<not> is_type msg_type HELLO" "\<not> is_type msg_type CALL" "\<not> is_type msg_type SUBSCRIBE"
    using assms(2) by (auto dest: is_type_unique)
  then show ?thesis
    using assms
    by (simp add: handle_msg_def recv_unsubscribe_def index_def schedule_msg_def enc_def)
qed

text \<open>The theorem at an UNSUBSCRIBE whose handler raises.\<close>

theorem unsubscribe_error_type_codes_witness:
  "sample_deserialize ''[34, 9, 43]'' = Some (JList [JInt 34, JInt 9, JInt 43]) \<and>
   is_type (JInt 34) UNSUBSCRIBE \<and>
   handle_msg sample_deserialize sample_protocol ''[34, 9, 43]'' [] =
     (Inr (), [Schedule_msg (JList [JInt 8, JInt 32, JInt 9, JDict [],
        JStr ''wamp.error.exception_during_rpc_call'', JStr ''registry unavailable''])])"
  using unsubscribe_error_type_codes [where deserialize = sample_deserialize
      and message = "''[34, 9, 43]''" and msg_type = "JInt 34" and request_id = "JInt 9"
      and subscription = "JInt 43" and rest = "[]" and self = sample_protocol
      and e = "''registry unavailable''" and tr = "[]", OF _ _ refl]
  by (simp add: sample_defs is_type_def call_def)

text \<open>
  C3 as stated fails: when the handler returns a typed error value, the second field of
  the error envelope is 34, not 32.
\<close>

theorem unsubscribe_typed_error_has_code_34:
  "handle_msg sample_deserialize sample_protocol ''[34, 9, 42]'' [] =
     (Inr (), [Schedule_msg (JList [JInt 8, JInt 34, JInt 9, JDict [],
        JStr ''wamp.error.no_such_subscription''])])"
  by (simp add: operation_defs sample_defs)

section \<open>CALL\<close>

text \<open>
  C4: a CALL whose \<open>request_id\<close> is not an int or whose \<open>uri\<close> is not a string makes
  \<open>handle_msg\<close> raise a bare \<^verbatim>\<open>Exception()\<close>, which nothing catches, and no call is
  made on the transport: no error reply, no ABORT, no close.
\<close>

theorem call_with_wrong_types_raises:
  assumes "deserialize message = Some (JList (msg_type # request_id # uri # rest))"
    and "is_type msg_type CALL"
    and "\<not> isinstance_int request_id \<or> \<not> isinstance_str uri"
  shows "handle_msg deserialize self message tr = (Inl (Exception []), tr)"
proof -
  have "\<not> is_type msg_type HELLO"
    using assms(2) by (auto dest: is_type_unique)
  then show ?thesis
    using assms
    by (auto simp add: handle_msg_def recv_rpc_call_def index_def)
qed

text \<open>The theorem at a CALL whose \<open>request_id\<close> is the string \<^verbatim>\<open>"7"\<close>.\<close>

theorem call_with_wrong_types_raises_witness:
  "sample_deserialize bad_call_text =
     Some (JList [JInt 48, JStr ''7'', JStr ''math.add'', JList [JInt 2, JInt 3]]) \<and>
   is_type (JInt 48) CALL \<and> \<not> isinstance_int (JStr ''7'') \<and>
   handle_msg sample_deserialize sample_protocol bad_call_text [] = (Inl (Exception []), [])"
  using call_with_wrong_types_raises [where deserialize = sample_deserialize
      and message = bad_call_text and msg_type = "JInt 48" and request_id = "JStr ''7''"
      and uri = "JStr ''math.add''" and rest = "[JList [JInt 2, JInt 3]]"
      and self = sample_protocol and tr = "[]"]
  by (simp add: sample_defs is_type_def)

text \<open>
  C5: when the RPC handler raises an exception \<open>e\<close> on a CALL with an int \<open>request_id\<close>
  and a string \<open>uri\<close>, the one call \<open>handle_msg\<close> makes on the transport sends
  \<^verbatim>\<open>[ERROR, CALL, request_id, {}, "wamp.error.exception_during_rpc_call", str(e)]\<close>;
  it returns without requesting close.
\<close>

theorem call_handler_exception_reply:
  assumes "deserialize message = Some (JList data)"
    and "data = msg_type # request_id # uri # rest"
    and "is_type msg_type CALL"
    and "isinstance_int request_id" and "isinstance_str uri"
    and "request = \<lparr>session = protocol_session self, req_request_id = request_id,
                      rpc_options = [], rpc_uri = uri,
                      rpc_args = (if length data > 3 then data ! 3 else JList []),
                      rpc_kwargs = (if length data > 4 then data ! 4 else JDict [])\<rparr>"
    and "call (rpc_handler self) request = Raises e"
  shows "handle_msg deserialize self message tr =
           (Inr (), tr @ [Schedule_msg (JList [JInt 8, JInt 48, request_id, JDict [],
              JStr ''wamp.error.exception_during_rpc_call'', JStr e])])"
proof -
  have i: "index data 0 = Inr msg_type" "index data 1 = Inr request_id"
    "index data 2 = Inr uri"
    by (simp_all add: assms(2) index_def)
  have "handle_msg deserialize self message tr = recv_rpc_call self data tr"
    using assms(1) i(1) assms(3) by (rule handle_msg_call)
  also have "\<dots> = schedule_msg (JList [enc ERROR, enc CALL, request_id, JDict [],
                         JStr ''wamp.error.exception_during_rpc_call'', JStr e]) tr"
    by (simp add: recv_rpc_call_checked [OF i(2) i(3) assms(4) assms(5) assms(6)] assms(7))
  finally show ?thesis
    by (simp add: schedule_msg_def enc_def)
qed

text \<open>The theorem at a CALL of a procedure the sample handler does not know.\<close>

theorem call_handler_exception_reply_witness:
  "sample_deserialize sqrt_call_text = Some (JList [JInt 48, JInt 8, JStr ''math.sqrt'']) \<and>
   is_type (JInt 48) CALL \<and> isinstance_int (JInt 8) \<and> isinstance_str (JStr ''math.sqrt'') \<and>
   handle_msg sample_deserialize sample_protocol sqrt_call_text [] =
     (Inr (), [Schedule_msg (JList [JInt 8, JInt 48, JInt 8, JDict [],
        JStr ''wamp.error.exception_during_rpc_call'', JStr ''no such procedure''])])"
  using call_handler_exception_reply [where deserialize = sample_deserialize
      and message = sqrt_call_text and data = "[JInt 48, JInt 8, JStr ''math.sqrt'']"
      and msg_type = "JInt 48" and request_id = "JInt 8" and uri = "JStr ''math.sqrt''"
      and rest = "[]" and self = sample_protocol and e = "''no such procedure''"
      and tr = "[]", OF _ _ _ _ _ refl]
  by (simp add: sample_defs is_type_def call_def)

text \<open>
  C6: when the RPC handler returns a value \<open>r\<close> that is not an error response on a CALL
  with an int \<open>request_id\<close> and a string \<open>uri\<close>, \<open>handle_msg\<close> makes exactly one call on
  the transport, sending \<^verbatim>\<open>[CALL_RESULT, request_id, r]\<close>. The witness is the CALL with
  \<open>request_id\<close> 7, \<open>uri\<close> \<^verbatim>\<open>math.add\<close> and \<open>args\<close> \<^verbatim>\<open>[2, 3]\<close>, answered by
  \<^verbatim>\<open>[CALL_RESULT, 7, 5]\<close>.
\<close>

theorem call_result_reply:
  assumes "deserialize message = Some (JList data)"
    and "data = msg_type # request_id # uri # rest"
    and "is_type msg_type CALL"
    and "isinstance_int request_id" and "isinstance_str uri"
    and "request = \<lparr>session = protocol_session self, req_request_id = request_id,
                      rpc_options = [], rpc_uri = uri,
                      rpc_args = (if length data > 3 then data ! 3 else JList []),
                      rpc_kwargs = (if length data > 4 then data ! 4 else JDict [])\<rparr>"
    and "call (rpc_handler self) request = Returns (RPCValue r)"
  shows "handle_msg deserialize self message tr =
           (Inr (), tr @ [Schedule_msg (JList [JInt 50, request_id, r])])"
proof -
  have i: "index data 0 = Inr msg_type" "index data 1 = Inr request_id"
    "index data 2 = Inr uri"
    by (simp_all add: assms(2) index_def)
  have "handle_msg deserialize self message tr = recv_rpc_call self data tr"
    using assms(1) i(1) assms(3) by (rule handle_msg_call)
  also have "\<dots> = schedule_msg (JList [enc CALL_RESULT, request_id, r]) tr"
    by (simp add: recv_rpc_call_checked [OF i(2) i(3) assms(4) assms(5) assms(6)] assms(7))
  finally show ?thesis
    by (simp add: schedule_msg_def enc_def)
qed

theorem call_result_reply_witness:
  "sample_deserialize add_call_text =
     Some (JList [JInt 48, JInt 7, JStr ''math.add'', JList [JInt 2, JInt 3]]) \<and>
   is_type (JInt 48) CALL \<and> isinstance_int (JInt 7) \<and> isinstance_str (JStr ''math.add'') \<and>
   handle_msg sample_deserialize sample_protocol add_call_text [] =
     (Inr (), [Schedule_msg (JList [JInt 50, JInt 7, JInt 5])])"
  using call_result_reply [where deserialize = sample_deserialize
      and message = add_call_text
      and data = "[JInt 48, JInt 7, JStr ''math.add'', JList [JInt 2, JInt 3]]"
      and msg_type = "JInt 48" and request_id = "JInt 7" and uri = "JStr ''math.add''"
      and rest = "[JList [JInt 2, JInt 3]]" and self = sample_protocol and r = "JInt 5"
      and tr = "[]", OF _ _ _ _ _ refl]
  by (simp add: sample_defs is_type_def call_def)

section \<open>Events\<close>

text \<open>
  C7, as the code has it: \<open>publish_event subscription event\<close> sends an envelope that
  begins \<^verbatim>\<open>[EVENT, subscription, event.publication, {}]\<close>, the fourth field being the
  empty mapping whatever the details of the event are; then \<open>args\<close> and \<open>kwargs\<close> in
  that order if \<open>kwargs\<close> is not empty, else \<open>args\<close> alone if it is not empty, else
  nothing.
\<close>

theorem publish_event_envelope:
  "publish_event subscription event tr =
     (Inr (), tr @ [Schedule_msg (JList
        ([JInt 36, subscription, JInt (event_publication event), JDict []] @
         (if event_kwargs event \<noteq> []
            then [JList (event_args event), JDict (event_kwargs event)]
          else if event_args event \<noteq> [] then [JList (event_args event)]
          else [])))])"
  by (simp add: publish_event_def schedule_msg_def enc_def)

text \<open>The theorem at the three shapes of an event.\<close>

theorem publish_event_envelope_witness:
  "publish_event (JInt 42) (sample_event\<lparr>event_kwargs := [(''k'', JBool True)]\<rparr>) [] =
     (Inr (), [Schedule_msg (JList [JInt 36, JInt 42, JInt 77, JDict [],
        JList [JInt 1], JDict [(''k'', JBool True)]])]) \<and>
   publish_event (JInt 42) sample_event [] =
     (Inr (), [Schedule_msg (JList [JInt 36, JInt 42, JInt 77, JDict [], JList [JInt 1]])]) \<and>
   publish_event (JInt 42) (sample_event\<lparr>event_args := []\<rparr>) [] =
     (Inr (), [Schedule_msg (JList [JInt 36, JInt 42, JInt 77, JDict []])])"
  using publish_event_envelope [of "JInt 42" "sample_event\<lparr>event_kwargs := [(''k'', JBool True)]\<rparr>" "[]"]
    publish_event_envelope [of "JInt 42" sample_event "[]"]
    publish_event_envelope [of "JInt 42" "sample_event\<lparr>event_args := []\<rparr>" "[]"]
  by (simp add: sample_event_def)

text \<open>
  C7 as stated fails: the details of the sample event are not empty, and the fourth
  field of the envelope is the empty mapping.
\<close>

theorem publish_event_drops_details:
  "JDict (event_details sample_event) = JDict [(''topic'', JStr ''topic.x'')] \<and>
   publish_event (JInt 42) sample_event [] =
     (Inr (), [Schedule_msg (JList [JInt 36, JInt 42, JInt 77, JDict [], JList [JInt 1]])])"
  by (simp add: publish_event_def schedule_msg_def enc_def sample_event_def)

section \<open>Messages the peer may not send\<close>

text \<open>
  C8, where the code departs from it: on an EVENT or INVOCATION envelope with a second
  element, \<open>handle_msg\<close> schedules the reply
  \<^verbatim>\<open>[msg_type, request_id, {}, "wamp.error.not_authorized"]\<close>, with the first two elements
  of the envelope as they came, and does not request close. It then awaits what
  \<open>do_unauthorized\<close> returned; \<open>do_unauthorized\<close> is a plain function, so that is
  \<^verbatim>\<open>None\<close>, and \<open>handle_msg\<close> leaves with a \<^verbatim>\<open>TypeError\<close> instead of returning.
\<close>

theorem unauthorized_reply_then_type_error:
  assumes "deserialize message = Some (JList (msg_type # request_id # rest))"
    and "is_type msg_type EVENT \<or> is_type msg_type INVOCATION"
  shows "handle_msg deserialize self message tr =
           (Inl (TypeError none_not_awaitable),
            tr @ [Schedule_msg (JList [msg_type, request_id, JDict [],
                    JStr ''wamp.error.not_authorized''])])"
proof -
  have "\<not> is_type msg_type HELLO" "\<not> is_type msg_type CALL" "\<not> is_type msg_type SUBSCRIBE"
    "\<not> is_type msg_type UNSUBSCRIBE"
    using assms(2) by (auto dest: is_type_unique)
  then show ?thesis
    using assms
    by (simp add: handle_msg_def do_unauthorized_def await_none_def index_def schedule_msg_def)
qed

text \<open>The theorem at the EVENT envelope \<^verbatim>\<open>[36, 5]\<close>.\<close>

theorem unauthorized_reply_then_type_error_witness:
  "sample_deserialize ''[36, 5]'' = Some (JList [JInt 36, JInt 5]) \<and>
   is_type (JInt 36) EVENT \<and>
   handle_msg sample_deserialize sample_protocol ''[36, 5]'' [] =
     (Inl (TypeError none_not_awaitable),
      [Schedule_msg (JList [JInt 36, JInt 5, JDict [], JStr ''wamp.error.not_authorized''])])"
  using unauthorized_reply_then_type_error [where deserialize = sample_deserialize
      and message = "''[36, 5]''" and msg_type = "JInt 36" and request_id = "JInt 5"
      and rest = "[]" and self = sample_protocol and tr = "[]"]
  by (simp add: sample_defs is_type_def)

text \<open>
  Its sibling \<open>do_unimplemented\<close>, a plain function too, is called without being awaited:
  on a PUBLISH or PUBLISHED envelope with a second element \<open>handle_msg\<close> schedules the
  reply and returns.
\<close>

lemma unimplemented_reply_returns:
  assumes "deserialize message = Some (JList (msg_type # request_id # rest))"
    and "is_type msg_type PUBLISH \<or> is_type msg_type PUBLISHED"
  shows "handle_msg deserialize self message tr =
           (Inr (), tr @ [Schedule_msg (JList [JInt 8, request_id, JDict [],
                            JStr ''wamp.error.not_implemented''])])"
proof -
  have "\<not> is_type msg_type HELLO" "\<not> is_type msg_type CALL" "\<not> is_type msg_type SUBSCRIBE"
    "\<not> is_type msg_type UNSUBSCRIBE" "\<not> is_type msg_type EVENT" "\<not> is_type msg_type INVOCATION"
    using assms(2) by (auto dest: is_type_unique)
  then show ?thesis
    using assms
    by (simp add: handle_msg_def do_unimplemented_def index_def schedule_msg_def enc_def)
qed

section \<open>Unknown message types\<close>

text \<open>
  C9: on an envelope whose first element equals none of the message types
  \<open>handle_msg\<close> has a branch for, it makes exactly two calls on the transport: it sends
  \<^verbatim>\<open>[ABORT, {"message": "Unknown WAMP message type."}, "wamp.error.protocol_violation"]\<close>
  and then requests close.
\<close>

theorem unknown_type_aborts_then_closes:
  assumes "deserialize message = Some (JList (msg_type # rest))"
    and "\<forall>t \<in> set [HELLO, CALL, SUBSCRIBE, UNSUBSCRIBE, EVENT, INVOCATION, PUBLISH, PUBLISHED].
           \<not> is_type msg_type t"
  shows "handle_msg deserialize self message tr =
           (Inr (), tr @ [Schedule_msg (JList [JInt 3,
                            JDict [(''message'', JStr ''Unknown WAMP message type.'')],
                            JStr ''wamp.error.protocol_violation'']),
                          Close])"
  using assms
  by (simp add: handle_msg_def do_protocol_violation_def index_def schedule_msg_def close_def
      enc_def)

text \<open>The theorem at the envelope \<^verbatim>\<open>[99, 1]\<close>.\<close>

theorem unknown_type_aborts_then_closes_witness:
  "sample_deserialize ''[99, 1]'' = Some (JList [JInt 99, JInt 1]) \<and>
   handle_msg sample_deserialize sample_protocol ''[99, 1]'' [] =
     (Inr (), [Schedule_msg (JList [JInt 3,
                 JDict [(''message'', JStr ''Unknown WAMP message type.'')],
                 JStr ''wamp.error.protocol_violation'']),
               Close])"
  using unknown_type_aborts_then_closes [where deserialize = sample_deserialize
      and message = "''[99, 1]''" and msg_type = "JInt 99" and rest = "[JInt 1]"
      and self = sample_protocol and tr = "[]"]
  by (simp add: sample_defs is_type_def)

section \<open>Short envelopes\<close>

text \<open>
  C10: on the empty array, and on a one-element array whose element is PUBLISH,
  PUBLISHED, EVENT or INVOCATION, \<open>handle_msg\<close> reads past the end of the list
  (\<^verbatim>\<open>data[0]\<close>, \<^verbatim>\<open>data[1]\<close>) and leaves with an \<^verbatim>\<open>IndexError\<close>, having made no call on
  the transport: no reply and no ABORT. So \<open>handle_msg\<close> does not return on every array.
\<close>

theorem short_envelope_index_error:
  "(deserialize message = Some (JList []) \<longrightarrow>
      handle_msg deserialize self message tr = (Inl IndexError, tr)) \<and>
   (deserialize message = Some (JList [msg_type]) \<and>
      (is_type msg_type PUBLISH \<or> is_type msg_type PUBLISHED \<or>
       is_type msg_type EVENT \<or> is_type msg_type INVOCATION) \<longrightarrow>
      handle_msg deserialize self message tr = (Inl IndexError, tr))"
proof (intro conjI impI)
  assume "deserialize message = Some (JList [])"
  then show "handle_msg deserialize self message tr = (Inl IndexError, tr)"
    by (simp add: handle_msg_def index_def)
next
  assume a: "deserialize message = Some (JList [msg_type]) \<and>
      (is_type msg_type PUBLISH \<or> is_type msg_type PUBLISHED \<or>
       is_type msg_type EVENT \<or> is_type msg_type INVOCATION)"
  then have "\<not> is_type msg_type HELLO" "\<not> is_type msg_type CALL"
    "\<not> is_type msg_type SUBSCRIBE" "\<not> is_type msg_type UNSUBSCRIBE"
    by (auto dest: is_type_unique)
  with a show "handle_msg deserialize self message tr = (Inl IndexError, tr)"
    by (auto simp add: handle_msg_def do_unauthorized_def await_none_def index_def)
qed

text \<open>The theorem at \<^verbatim>\<open>[]\<close>, \<^verbatim>\<open>[16]\<close> and \<^verbatim>\<open>[36]\<close>.\<close>

theorem short_envelope_index_error_witness:
  "sample_deserialize ''[]'' = Some (JList []) \<and>
   handle_msg sample_deserialize sample_protocol ''[]'' [] = (Inl IndexError, []) \<and>
   sample_deserialize ''[16]'' = Some (JList [JInt 16]) \<and> is_type (JInt 16) PUBLISH \<and>
   handle_msg sample_deserialize sample_protocol ''[16]'' [] = (Inl IndexError, []) \<and>
   sample_deserialize ''[36]'' = Some (JList [JInt 36]) \<and> is_type (JInt 36) EVENT \<and>
   handle_msg sample_deserialize sample_protocol ''[36]'' [] = (Inl IndexError, [])"
  using short_envelope_index_error [where deserialize = sample_deserialize
      and message = "''[]''" and self = sample_protocol and tr = "[]"]
    short_envelope_index_error [where deserialize = sample_deserialize
      and message = "''[16]''" and msg_type = "JInt 16" and self = sample_protocol
      and tr = "[]"]
    short_envelope_index_error [where deserialize = sample_deserialize
      and message = "''[36]''" and msg_type = "JInt 36" and self = sample_protocol
      and tr = "[]"]
  by (simp add: sample_defs is_type_def)

end
